theory Spec2Isabelle
  imports Main
begin

section \<open>Misskey entities and unified entities\<close>

text \<open>
  A shallow embedding of the Misskey backend of the client: the converters of
  \<^verbatim>\<open>MisskeyAPI.Converter\<close>, the method \<^verbatim>\<open>MisskeyAPI.Client.post\<close> and the operations of the
  class \<^verbatim>\<open>Misskey\<close> (\<^verbatim>\<open>src/misskey.ts\<close>).

  The entity declarations (the namespaces \<^verbatim>\<open>MisskeyEntity\<close> and \<^verbatim>\<open>MegalodonEntity\<close>) are
  type-only files that are not among the sources at hand. The records below carry
  exactly the fields that the converters read (native side) and write (unified side).
  A TypeScript \<^verbatim>\<open>number\<close> holds a count here and is an \<^typ>\<open>int\<close>; an optional or
  nullable field or parameter is an \<^typ>\<open>'a option\<close> (\<^term>\<open>None\<close> for \<^verbatim>\<open>undefined\<close> and
  \<^verbatim>\<open>null\<close>, which no modelled operation tells apart).
\<close>

subsection \<open>Native (Misskey) side\<close>

record MEmoji =
  emoji_name :: string
  emoji_url :: string

record MUser =
  user_id :: string
  user_username :: string
  user_host :: "string option"
  user_name :: string
  user_avatarUrl :: string
  user_avatarColor :: string
  user_emojis :: "MEmoji list"

record MUserDetail =
  ud_id :: string
  ud_username :: string
  ud_host :: "string option"
  ud_name :: string
  ud_isLocked :: bool
  ud_createdAt :: string
  ud_followersCount :: int
  ud_followingCount :: int
  ud_notesCount :: int
  ud_description :: string
  ud_avatarUrl :: string
  ud_avatarColor :: string
  ud_bannerUrl :: string
  ud_bannerColor :: string
  ud_emojis :: "MEmoji list"
  ud_isBot :: bool

datatype MVisibility = M_public | M_home | M_followers | M_specified

record MFile =
  file_id :: string
  file_url :: string
  file_thumbnailUrl :: string
  file_isSensitive :: bool

record MRelation =
  rel_id :: string
  rel_isFollowing :: bool
  rel_isFollowed :: bool
  rel_isBlocking :: bool
  rel_isMuted :: bool
  rel_hasPendingFollowRequestFromYou :: bool

record MChoice =
  choice_text :: string
  choice_votes :: int
  choice_isVoted :: bool

record MPoll =
  poll_expiresAt :: string
  poll_multiple :: bool
  poll_choices :: "MChoice list"

datatype MNote = MNote
  (note_id: string)
  (note_user: MUser)
  (note_replyId: "string option")
  (note_reply: "MNote option")
  (note_renote: "MNote option")
  (note_text: string)
  (note_createdAt: string)
  (note_emojis: "MEmoji list")
  (note_repliesCount: int)
  (note_renoteCount: int)
  (note_files: "MFile list option")
  (note_cw: "string option")
  (note_visibility: MVisibility)
  (note_poll: "MPoll option")

record MFollower =
  follower_follower :: MUser

record MFollowing =
  following_followee :: MUser

record MList =
  list_id :: string
  list_name :: string

subsection \<open>Unified side\<close>

record Emoji =
  shortcode :: string
  static_url :: string
  url :: string
  visible_in_picker :: bool

text \<open>\<^verbatim>\<open>moved\<close> and \<^verbatim>\<open>fields\<close> are only ever written as \<^verbatim>\<open>null\<close> by the converters.\<close>

record Account =
  acct_id :: string
  acct_username :: string
  acct_acct :: string
  acct_display_name :: string
  acct_locked :: bool
  acct_created_at :: string
  acct_followers_count :: int
  acct_following_count :: int
  acct_statuses_count :: int
  acct_note :: string
  acct_url :: string
  acct_avatar :: string
  acct_avatar_static :: string
  acct_header :: string
  acct_header_static :: string
  acct_emojis :: "Emoji list"
  acct_moved :: "unit option"
  acct_fields :: "unit option"
  acct_bot :: "bool option"

datatype Visibility = V_public | V_unlisted | V_private | V_direct

record Attachment =
  att_id :: string
  att_type :: string
  att_url :: string
  att_remote_url :: string
  att_preview_url :: string
  att_text_url :: string
  att_meta :: "unit option"
  att_description :: "string option"

record Relationship =
  rs_id :: string
  rs_following :: bool
  rs_followed_by :: bool
  rs_blocking :: bool
  rs_muting :: bool
  rs_muting_notifications :: bool
  rs_requested :: bool
  rs_domain_blocking :: bool
  rs_showing_reblogs :: bool
  rs_endorsed :: bool

record PollOption =
  opt_title :: string
  opt_votes_count :: int

record Poll =
  Poll_id :: string
  Poll_expires_at :: string
  Poll_expired :: bool
  Poll_multiple :: bool
  Poll_votes_count :: int
  Poll_options :: "PollOption list"
  Poll_voted :: bool

text \<open>
  \<^verbatim>\<open>mentions\<close> and \<^verbatim>\<open>tags\<close> are only ever written as \<^verbatim>\<open>[]\<close>, and
  \<^verbatim>\<open>in_reply_to_account_id\<close>, \<^verbatim>\<open>card\<close>, \<^verbatim>\<open>application\<close>, \<^verbatim>\<open>language\<close> and \<^verbatim>\<open>pinned\<close>
  only as \<^verbatim>\<open>null\<close>.
\<close>

datatype Status = Status
  (status_id: string)
  (status_uri: string)
  (status_url: string)
  (status_account: Account)
  (status_in_reply_to_id: "string option")
  (status_in_reply_to_account_id: "string option")
  (status_reblog: "Status option")
  (status_content: string)
  (status_created_at: string)
  (status_emojis: "Emoji list")
  (status_replies_count: int)
  (status_reblogs_count: int)
  (status_favourites_count: int)
  (status_reblogged: bool)
  (status_favourited: bool)
  (status_muted: bool)
  (status_sensitive: bool)
  (status_spoiler_text: string)
  (status_visibility: Visibility)
  (status_media_attachments: "Attachment list")
  (status_mentions: "unit list")
  (status_tags: "unit list")
  (status_card: "unit option")
  (status_poll: "Poll option")
  (status_application: "unit option")
  (status_language: "string option")
  (status_pinned: "bool option")

record Conversation =
  conv_id :: string
  conv_accounts :: "Account list"
  conv_last_status :: Status
  conv_unread :: bool

record List' =
  List_id :: string
  List_title :: string

section \<open>JavaScript truthiness\<close>

text \<open>
  \<^verbatim>\<open>if (x)\<close> on an optional string is false for \<^verbatim>\<open>undefined\<close>, \<^verbatim>\<open>null\<close> and \<^verbatim>\<open>''\<close>;
  on an optional number it is false for \<^verbatim>\<open>undefined\<close>, \<^verbatim>\<open>null\<close> and \<^verbatim>\<open>0\<close>;
  on an optional boolean it is false for \<^verbatim>\<open>undefined\<close>, \<^verbatim>\<open>null\<close> and \<^verbatim>\<open>false\<close>.
\<close>

fun truthy_str :: "string option \<Rightarrow> bool" where
  "truthy_str None = False"
| "truthy_str (Some s) = (s \<noteq> [])"

fun truthy_num :: "int option \<Rightarrow> bool" where
  "truthy_num None = False"
| "truthy_num (Some n) = (n \<noteq> 0)"

fun truthy_bool :: "bool option \<Rightarrow> bool" where
  "truthy_bool None = False"
| "truthy_bool (Some b) = b"

section \<open>The clock and the date library\<close>

text \<open>
  \<^verbatim>\<open>moment()\<close> reads the wall clock and \<^verbatim>\<open>moment(s)\<close> parses a date string; both belong
  to an external library. A parsed date is a number of milliseconds or invalid, and
  \<^verbatim>\<open>a.isAfter(b)\<close> is false as soon as one side is invalid. The library's parser and
  the successive readings of the clock are parameters: \<open>reading T k\<close> is what the
  \<open>k\<close>-th call of \<^verbatim>\<open>moment()\<close> returns, and a converter that reads the clock takes the
  number of readings made so far and returns it incremented.
\<close>

datatype moment = Invalid | At int

fun isAfter :: "moment \<Rightarrow> moment \<Rightarrow> bool" where
  "isAfter (At a) (At b) = (b < a)"
| "isAfter _ _ = False"

record time_env =
  moment_parse :: "string \<Rightarrow> moment"
  reading :: "nat \<Rightarrow> int"

section \<open>MisskeyAPI.Converter\<close>

text \<open>
  The namespace \<^verbatim>\<open>MisskeyAPI.Converter\<close> of the API client (in the sources at hand it
  follows the notification entity in \<^verbatim>\<open>src/misskey/entities/notification.ts\<close>). The names
  \<^verbatim>\<open>file\<close>, \<^verbatim>\<open>note\<close> and \<^verbatim>\<open>list\<close> are taken in Isabelle and carry a prime here.
\<close>

definition emoji :: "MEmoji \<Rightarrow> Emoji" where
  "emoji e = \<lparr>shortcode = emoji_name e, static_url = emoji_url e, url = emoji_url e,
              visible_in_picker = True\<rparr>"

definition user :: "MUser \<Rightarrow> Account" where
  "user u =
    (let acct = user_username u;
         acct = (if truthy_str (user_host u)
                 then user_username u @ ''@'' @ (case user_host u of Some h \<Rightarrow> h | None \<Rightarrow> [])
                 else acct)
     in \<lparr>acct_id = user_id u,
         acct_username = user_username u,
         acct_acct = acct,
         acct_display_name = user_name u,
         acct_locked = False,
         acct_created_at = [],
         acct_followers_count = 0,
         acct_following_count = 0,
         acct_statuses_count = 0,
         acct_note = [],
         acct_url = [],
         acct_avatar = user_avatarUrl u,
         acct_avatar_static = user_avatarColor u,
         acct_header = [],
         acct_header_static = [],
         acct_emojis = map emoji (user_emojis u),
         acct_moved = None,
         acct_fields = None,
         acct_bot = None\<rparr>)"

definition userDetail :: "MUserDetail \<Rightarrow> Account" where
  "userDetail u =
    (let acct = ud_username u;
         acct = (if truthy_str (ud_host u)
                 then ud_username u @ ''@'' @ (case ud_host u of Some h \<Rightarrow> h | None \<Rightarrow> [])
                 else acct)
     in \<lparr>acct_id = ud_id u,
         acct_username = ud_username u,
         acct_acct = acct,
         acct_display_name = ud_name u,
         acct_locked = ud_isLocked u,
         acct_created_at = ud_createdAt u,
         acct_followers_count = ud_followersCount u,
         acct_following_count = ud_followingCount u,
         acct_statuses_count = ud_notesCount u,
         acct_note = ud_description u,
         acct_url = acct,
         acct_avatar = ud_avatarUrl u,
         acct_avatar_static = ud_avatarColor u,
         acct_header = ud_bannerUrl u,
         acct_header_static = ud_bannerColor u,
         acct_emojis = map emoji (ud_emojis u),
         acct_moved = None,
         acct_fields = None,
         acct_bot = Some (ud_isBot u)\<rparr>)"

fun visibility :: "MVisibility \<Rightarrow> Visibility" where
  "visibility M_public = V_public"
| "visibility M_home = V_unlisted"
| "visibility M_followers = V_private"
| "visibility M_specified = V_direct"

fun encodeVisibility :: "Visibility \<Rightarrow> MVisibility" where
  "encodeVisibility V_public = M_public"
| "encodeVisibility V_unlisted = M_home"
| "encodeVisibility V_private = M_followers"
| "encodeVisibility V_direct = M_specified"

definition file' :: "MFile \<Rightarrow> Attachment" where
  "file' f = \<lparr>att_id = file_id f, att_type = ''image'', att_url = file_url f,
             att_remote_url = file_url f, att_preview_url = file_thumbnailUrl f,
             att_text_url = file_url f, att_meta = None, att_description = None\<rparr>"

definition follower :: "MFollower \<Rightarrow> Account" where
  "follower f = user (follower_follower f)"

definition following :: "MFollowing \<Rightarrow> Account" where
  "following f = user (following_followee f)"

definition relation :: "MRelation \<Rightarrow> Relationship" where
  "relation r = \<lparr>rs_id = rel_id r,
                 rs_following = rel_isFollowing r,
                 rs_followed_by = rel_isFollowed r,
                 rs_blocking = rel_isBlocking r,
                 rs_muting = rel_isMuted r,
                 rs_muting_notifications = False,
                 rs_requested = rel_hasPendingFollowRequestFromYou r,
                 rs_domain_blocking = False,
                 rs_showing_reblogs = True,
                 rs_endorsed = False\<rparr>"

definition choice :: "MChoice \<Rightarrow> PollOption" where
  "choice c = \<lparr>opt_title = choice_text c, opt_votes_count = choice_votes c\<rparr>"

text \<open>
  \<^verbatim>\<open>reduce((sum, choice) => sum + choice.votes, 0)\<close> is a left fold from \<open>0\<close>;
  \<^verbatim>\<open>some\<close> is \<^const>\<open>list_ex\<close>.
\<close>

definition poll :: "time_env \<Rightarrow> MPoll \<Rightarrow> nat \<Rightarrow> Poll \<times> nat" where
  "poll T p k =
    (let now = At (reading T k);
         expire = moment_parse T (poll_expiresAt p);
         count = foldl (\<lambda>sum c. sum + choice_votes c) 0 (poll_choices p)
     in (\<lparr>Poll_id = [],
          Poll_expires_at = poll_expiresAt p,
          Poll_expired = isAfter now expire,
          Poll_multiple = poll_multiple p,
          Poll_votes_count = count,
          Poll_options = map choice (poll_choices p),
          Poll_voted = list_ex choice_isVoted (poll_choices p)\<rparr>, Suc k))"

text \<open>
  The fields of the object literal are evaluated in source order: the renote is
  converted (reading the clock for its polls) before the note's own poll.
\<close>

fun note' :: "time_env \<Rightarrow> MNote \<Rightarrow> nat \<Rightarrow> Status \<times> nat" where
  "note' T (MNote nid nuser replyId reply renote text createdAt emojis repliesCount renoteCount
             files cw vis npoll) k =
    (let (reblog, k1) = (case renote of
                           None \<Rightarrow> (None, k)
                         | Some r \<Rightarrow> (let (s, k') = note' T r k in (Some s, k')));
         (pl, k2) = (case npoll of
                       None \<Rightarrow> (None, k1)
                     | Some p \<Rightarrow> (let (q, k') = poll T p k1 in (Some q, k')))
     in (Status nid [] [] (user nuser) replyId None reblog text createdAt (map emoji emojis)
           repliesCount renoteCount 0 False False False
           (case files of Some fs \<Rightarrow> list_ex file_isSensitive fs | None \<Rightarrow> False)
           (if truthy_str cw then (case cw of Some s \<Rightarrow> s | None \<Rightarrow> []) else [])
           (visibility vis)
           (case files of Some fs \<Rightarrow> map file' fs | None \<Rightarrow> [])
           [] [] None pl None None None, k2))"

definition list' :: "MList \<Rightarrow> List'" where
  "list' l = \<lparr>List_id = list_id l, List_title = list_name l\<rparr>"

section \<open>Requests, the transport and promises\<close>

text \<open>
  A request body is a JavaScript object: an association list in insertion order.
  \<^verbatim>\<open>Object.assign(target, source)\<close> overwrites a key that exists in place and appends a new
  one. \<^verbatim>\<open>xs[0]\<close> of an empty array is \<^verbatim>\<open>undefined\<close>.
\<close>

datatype jvalue = JUndefined | JBool bool | JNum int | JStr string

type_synonym jobject = "(string \<times> jvalue) list"

fun set_prop :: "jobject \<Rightarrow> string \<Rightarrow> jvalue \<Rightarrow> jobject" where
  "set_prop [] k v = [(k, v)]"
| "set_prop ((k', v') # rest) k v =
     (if k' = k then (k, v) # rest else (k', v') # set_prop rest k v)"

definition Object_assign :: "jobject \<Rightarrow> jobject \<Rightarrow> jobject" where
  "Object_assign target source = foldl (\<lambda>obj (k, v). set_prop obj k v) target source"

fun elem0 :: "('a \<Rightarrow> jvalue) \<Rightarrow> 'a list \<Rightarrow> jvalue" where
  "elem0 f [] = JUndefined"
| "elem0 f (x # _) = f x"

fun jnum :: "int option \<Rightarrow> jvalue" where
  "jnum None = JUndefined"
| "jnum (Some n) = JNum n"

fun jstr :: "string option \<Rightarrow> jvalue" where
  "jstr None = JUndefined"
| "jstr (Some s) = JStr s"

fun jbool :: "bool option \<Rightarrow> jvalue" where
  "jbool None = JUndefined"
| "jbool (Some b) = JBool b"

record request =
  req_url :: string
  req_body :: jobject
  req_userAgent :: string

record 'a Response =
  r_data :: 'a
  r_status :: int
  r_statusText :: string
  r_headers :: "(string \<times> string) list"

definition with_data :: "'a Response \<Rightarrow> 'b \<Rightarrow> 'b Response" where
  "with_data res d = \<lparr>r_data = d, r_status = r_status res, r_statusText = r_statusText res,
                       r_headers = r_headers res\<rparr>"

text \<open>
  The error classes that the facade throws, each with its message, and whatever the
  HTTP library rejects with (a network or status failure, a cancellation).
\<close>

datatype error =
    NoImplementedError string
  | ArgumentError string
  | UnexpectedError string
  | AxiosError string

text \<open>
  The world a facade operation runs in: the requests handed to the transport so far, in
  order, and the number of clock readings made so far. A promise is a computation on the
  world that rejects (\<^term>\<open>Inl\<close>) or resolves (\<^term>\<open>Inr\<close>).
\<close>

record world =
  calls :: "request list"
  reads :: nat

type_synonym 'a promise = "world \<Rightarrow> (error + 'a) \<times> world"

definition resolve :: "'a \<Rightarrow> 'a promise" where
  "resolve x w = (Inr x, w)"

definition reject :: "error \<Rightarrow> 'a promise" where
  "reject e w = (Inl e, w)"

definition then_p :: "'a promise \<Rightarrow> ('a \<Rightarrow> 'b promise) \<Rightarrow> 'b promise" where
  "then_p m f w = (case m w of (Inl e, w') \<Rightarrow> (Inl e, w') | (Inr x, w') \<Rightarrow> f x w')"

definition convert :: "(nat \<Rightarrow> 'a \<times> nat) \<Rightarrow> 'a promise" where
  "convert f w = (let (x, k) = f (reads w) in (Inr x, w\<lparr>reads := k\<rparr>))"

fun mapS :: "('a \<Rightarrow> nat \<Rightarrow> 'b \<times> nat) \<Rightarrow> 'a list \<Rightarrow> nat \<Rightarrow> 'b list \<times> nat" where
  "mapS f [] k = ([], k)"
| "mapS f (x # xs) k = (let (y, k1) = f x k; (ys, k2) = mapS f xs k1 in (y # ys, k2))"

text \<open>
  The backend is any function from the requests it has seen and the current request to a
  failure or a response. \<^verbatim>\<open>post<T>\<close> asserts the type of the response data without
  checking it, so there is one reply function for each \<^verbatim>\<open>T\<close> the operations below use.
\<close>

record MFavorite =
  fav_note :: MNote

record MMute =
  mute_mutee :: MUserDetail

record MBlocking =
  blocking_blockee :: MUserDetail

record MFollowRequest =
  fr_follower :: MUser

type_synonym 'a reply = "request list \<Rightarrow> request \<Rightarrow> error + 'a Response"

record server =
  reply_empty :: "unit reply"
  reply_relation :: "MRelation reply"
  reply_note :: "MNote reply"
  reply_notes :: "MNote list reply"
  reply_favorites :: "MFavorite list reply"
  reply_mutes :: "MMute list reply"
  reply_blockings :: "MBlocking list reply"
  reply_followers :: "MFollower list reply"
  reply_userDetails :: "MUserDetail list reply"
  reply_followRequests :: "MFollowRequest list reply"

record Client =
  accessToken :: string
  baseUrl :: string
  userAgent :: string

text \<open>\<^verbatim>\<open>MisskeyAPI.Client.post\<close> (the instance method): adds the token, calls the transport.\<close>

definition post :: "Client \<Rightarrow> 'a reply \<Rightarrow> string \<Rightarrow> jobject \<Rightarrow> 'a Response promise" where
  "post c srv path params w =
    (let bodyParams = Object_assign params [(''i'', JStr (accessToken c))];
         req = \<lparr>req_url = baseUrl c @ path, req_body = bodyParams, req_userAgent = userAgent c\<rparr>
     in (srv (calls w) req, w\<lparr>calls := calls w @ [req]\<rparr>))"

definition noteToConversation :: "time_env \<Rightarrow> MNote \<Rightarrow> nat \<Rightarrow> Conversation \<times> nat" where
  "noteToConversation T n k =
    (let accounts = [user (note_user n)];
         accounts = (case note_reply n of
                       Some r \<Rightarrow> accounts @ [user (note_user r)]
                     | None \<Rightarrow> accounts);
         (last, k1) = note' T n k
     in (\<lparr>conv_id = note_id n, conv_accounts = accounts, conv_last_status = last,
          conv_unread = False\<rparr>, k1))"

section \<open>The Misskey facade: operations without a Misskey equivalent\<close>

text \<open>
  Each of these is \<^verbatim>\<open>new Promise((_, reject) => reject(new NoImplementedError(...)))\<close>.
  The unified entities they would return are not needed for anything else.
\<close>

typedecl Application
typedecl TokenData
typedecl Token
typedecl IdentityProof
typedecl Filter
typedecl FeaturedTag
typedecl Tag
typedecl Preferences
typedecl ScheduledStatus
typedecl Marker

datatype FilterContext = FC_home | FC_notifications | FC_public | FC_thread

datatype MarkerTimeline = MT_home | MT_notifications

definition verifyAppCredentials :: "Application Response promise" where
  "verifyAppCredentials = reject (NoImplementedError ''misskey does not support'')"

definition refreshToken :: "string \<Rightarrow> string \<Rightarrow> string \<Rightarrow> TokenData promise" where
  "refreshToken client_id client_secret refresh_token = reject (NoImplementedError ''misskey does not support'')"

definition revokeToken :: "string \<Rightarrow> string \<Rightarrow> string \<Rightarrow> unit Response promise" where
  "revokeToken client_id client_secret token = reject (NoImplementedError ''misskey does not support'')"

definition registerAccount ::
  "string \<Rightarrow> string \<Rightarrow> string \<Rightarrow> bool \<Rightarrow> string \<Rightarrow> string option \<Rightarrow> Token Response promise" where
  "registerAccount username email password agreement locale reason =
     reject (NoImplementedError ''misskey does not support'')"

definition getAccountFavourites ::
  "string \<Rightarrow> int option \<Rightarrow> string option \<Rightarrow> string option \<Rightarrow> Status list Response promise" where
  "getAccountFavourites id' limit max_id since_id = reject (NoImplementedError ''misskey does not support'')"

definition subscribeAccount :: "string \<Rightarrow> Relationship Response promise" where
  "subscribeAccount id' = reject (NoImplementedError ''misskey does not support'')"

definition unsubscribeAccount :: "string \<Rightarrow> Relationship Response promise" where
  "unsubscribeAccount id' = reject (NoImplementedError ''misskey does not support'')"

definition getAccountLists :: "string \<Rightarrow> List' list Response promise" where
  "getAccountLists id' = reject (NoImplementedError ''misskey does not support'')"

definition getIdentityProof :: "string \<Rightarrow> IdentityProof list Response promise" where
  "getIdentityProof id' = reject (NoImplementedError ''misskey does not support'')"

definition pinAccount :: "string \<Rightarrow> Relationship Response promise" where
  "pinAccount id' = reject (NoImplementedError ''misskey does not support'')"

definition unpinAccount :: "string \<Rightarrow> Relationship Response promise" where
  "unpinAccount id' = reject (NoImplementedError ''misskey does not support'')"

definition getBookmarks ::
  "int option \<Rightarrow> string option \<Rightarrow> string option \<Rightarrow> string option \<Rightarrow> Status list Response promise" where
  "getBookmarks limit max_id since_id min_id = reject (NoImplementedError ''misskey does not support'')"

definition getDomainBlocks ::
  "int option \<Rightarrow> string option \<Rightarrow> string option \<Rightarrow> string list Response promise" where
  "getDomainBlocks limit max_id min_id = reject (NoImplementedError ''misskey does not support'')"

definition blockDomain :: "string \<Rightarrow> unit Response promise" where
  "blockDomain domain = reject (NoImplementedError ''misskey does not support'')"

definition unblockDomain :: "string \<Rightarrow> unit Response promise" where
  "unblockDomain domain = reject (NoImplementedError ''misskey does not support'')"

definition getFilters :: "Filter list Response promise" where
  "getFilters = reject (NoImplementedError ''misskey does not support'')"

definition getFilter :: "string \<Rightarrow> Filter Response promise" where
  "getFilter id' = reject (NoImplementedError ''misskey does not support'')"

definition createFilter ::
  "string \<Rightarrow> FilterContext list \<Rightarrow> bool option \<Rightarrow> bool option \<Rightarrow> string option
     \<Rightarrow> Filter Response promise" where
  "createFilter phrase context' irreversible whole_word expires_in =
     reject (NoImplementedError ''misskey does not support'')"

definition updateFilter ::
  "string \<Rightarrow> string \<Rightarrow> FilterContext list \<Rightarrow> bool option \<Rightarrow> bool option \<Rightarrow> string option
     \<Rightarrow> Filter Response promise" where
  "updateFilter id' phrase context' irreversible whole_word expires_in =
     reject (NoImplementedError ''misskey does not support'')"

definition deleteFilter :: "string \<Rightarrow> Filter Response promise" where
  "deleteFilter id' = reject (NoImplementedError ''misskey does not support'')"

definition getEndorsements ::
  "int option \<Rightarrow> string option \<Rightarrow> string option \<Rightarrow> Account list Response promise" where
  "getEndorsements limit max_id since_id = reject (NoImplementedError ''misskey does not support'')"

definition getFeaturedTags :: "FeaturedTag list Response promise" where
  "getFeaturedTags = reject (NoImplementedError ''misskey does not support'')"

definition createFeaturedTag :: "string \<Rightarrow> FeaturedTag Response promise" where
  "createFeaturedTag name = reject (NoImplementedError ''misskey does not support'')"

definition deleteFeaturedTag :: "string \<Rightarrow> unit Response promise" where
  "deleteFeaturedTag id' = reject (NoImplementedError ''misskey does not support'')"

definition getSuggestedTags :: "Tag list Response promise" where
  "getSuggestedTags = reject (NoImplementedError ''misskey does not support'')"

definition getPreferences :: "Preferences Response promise" where
  "getPreferences = reject (NoImplementedError ''misskey does not support'')"

definition getStatusFavouritedBy :: "string \<Rightarrow> Account list Response promise" where
  "getStatusFavouritedBy id' = reject (NoImplementedError ''misskey does not support'')"

definition bookmarkStatus :: "string \<Rightarrow> Status Response promise" where
  "bookmarkStatus id' = reject (NoImplementedError ''misskey does not support'')"

definition unbookmarkStatus :: "string \<Rightarrow> Status Response promise" where
  "unbookmarkStatus id' = reject (NoImplementedError ''misskey does not support'')"

definition muteStatus :: "string \<Rightarrow> Status Response promise" where
  "muteStatus id' = reject (NoImplementedError ''misskey does not support'')"

definition unmuteStatus :: "string \<Rightarrow> Status Response promise" where
  "unmuteStatus id' = reject (NoImplementedError ''misskey does not support'')"

definition getPoll :: "string \<Rightarrow> Poll Response promise" where
  "getPoll id' = reject (NoImplementedError ''misskey does not support'')"

definition getScheduledStatuses ::
  "int option \<Rightarrow> string option \<Rightarrow> string option \<Rightarrow> string option
     \<Rightarrow> ScheduledStatus list Response promise" where
  "getScheduledStatuses limit max_id since_id min_id = reject (NoImplementedError ''misskey does not support'')"

definition getScheduledStatus :: "string \<Rightarrow> ScheduledStatus Response promise" where
  "getScheduledStatus id' = reject (NoImplementedError ''misskey does not support'')"

definition scheduleStatus :: "string \<Rightarrow> string option \<Rightarrow> ScheduledStatus Response promise" where
  "scheduleStatus id' scheduled_at = reject (NoImplementedError ''misskey does not support'')"

definition cancelScheduledStatus :: "string \<Rightarrow> unit Response promise" where
  "cancelScheduledStatus id' = reject (NoImplementedError ''misskey does not support'')"

definition deleteConversation :: "string \<Rightarrow> unit Response promise" where
  "deleteConversation id' = reject (NoImplementedError ''misskey does not support'')"

definition readConversation :: "string \<Rightarrow> Conversation Response promise" where
  "readConversation id' = reject (NoImplementedError ''misskey does not support'')"

definition getMarker :: "MarkerTimeline list \<Rightarrow> Marker option Response promise" where
  "getMarker timeline = reject (NoImplementedError ''misskey does not support'')"

definition saveMarker :: "string option \<Rightarrow> string option \<Rightarrow> Marker Response promise" where
  "saveMarker home notifications = reject (NoImplementedError ''misskey does not support'')"

section \<open>The Misskey facade: operations in two steps\<close>

text \<open>
  \<^verbatim>\<open>await this.client.post(...)\<close> followed by \<^verbatim>\<open>return this.client.post(...).then(...)\<close>:
  a rejected first promise is rethrown at the \<^verbatim>\<open>await\<close>.
\<close>

definition followAccount :: "Client \<Rightarrow> server \<Rightarrow> string \<Rightarrow> bool \<Rightarrow> Relationship Response promise" where
  "followAccount c S id' reblog =
    then_p (post c (reply_empty S) ''api/following/create'' [(''userId'', JStr id')]) (\<lambda>_.
    then_p (post c (reply_relation S) ''/api/users/relation'' [(''userId'', JStr id')]) (\<lambda>res.
      resolve (with_data res (relation (r_data res)))))"

definition unfollowAccount :: "Client \<Rightarrow> server \<Rightarrow> string \<Rightarrow> Relationship Response promise" where
  "unfollowAccount c S id' =
    then_p (post c (reply_empty S) ''api/following/delete'' [(''userId'', JStr id')]) (\<lambda>_.
    then_p (post c (reply_relation S) ''/api/users/relation'' [(''userId'', JStr id')]) (\<lambda>res.
      resolve (with_data res (relation (r_data res)))))"

definition blockAccount :: "Client \<Rightarrow> server \<Rightarrow> string \<Rightarrow> Relationship Response promise" where
  "blockAccount c S id' =
    then_p (post c (reply_empty S) ''api/blocking/create'' [(''userId'', JStr id')]) (\<lambda>_.
    then_p (post c (reply_relation S) ''/api/users/relation'' [(''userId'', JStr id')]) (\<lambda>res.
      resolve (with_data res (relation (r_data res)))))"

definition unblockAccount :: "Client \<Rightarrow> server \<Rightarrow> string \<Rightarrow> Relationship Response promise" where
  "unblockAccount c S id' =
    then_p (post c (reply_empty S) ''api/blocking/delete'' [(''userId'', JStr id')]) (\<lambda>_.
    then_p (post c (reply_relation S) ''/api/users/relation'' [(''userId'', JStr id')]) (\<lambda>res.
      resolve (with_data res (relation (r_data res)))))"

definition muteAccount :: "Client \<Rightarrow> server \<Rightarrow> string \<Rightarrow> bool \<Rightarrow> Relationship Response promise" where
  "muteAccount c S id' notifications =
    then_p (post c (reply_empty S) ''api/mute/create'' [(''userId'', JStr id')]) (\<lambda>_.
    then_p (post c (reply_relation S) ''/api/users/relation'' [(''userId'', JStr id')]) (\<lambda>res.
      resolve (with_data res (relation (r_data res)))))"

definition unmuteAccount :: "Client \<Rightarrow> server \<Rightarrow> string \<Rightarrow> Relationship Response promise" where
  "unmuteAccount c S id' =
    then_p (post c (reply_empty S) ''api/mute/delete'' [(''userId'', JStr id')]) (\<lambda>_.
    then_p (post c (reply_relation S) ''/api/users/relation'' [(''userId'', JStr id')]) (\<lambda>res.
      resolve (with_data res (relation (r_data res)))))"

definition acceptFollowRequest :: "Client \<Rightarrow> server \<Rightarrow> string \<Rightarrow> Relationship Response promise" where
  "acceptFollowRequest c S id' =
    then_p (post c (reply_empty S) ''/api/following/requests/accept'' [(''userId'', JStr id')]) (\<lambda>_.
    then_p (post c (reply_relation S) ''/api/users/relation'' [(''userId'', JStr id')]) (\<lambda>res.
      resolve (with_data res (relation (r_data res)))))"

definition rejectFollowRequest :: "Client \<Rightarrow> server \<Rightarrow> string \<Rightarrow> Relationship Response promise" where
  "rejectFollowRequest c S id' =
    then_p (post c (reply_empty S) ''/api/following/requests/reject'' [(''userId'', JStr id')]) (\<lambda>_.
    then_p (post c (reply_relation S) ''/api/users/relation'' [(''userId'', JStr id')]) (\<lambda>res.
      resolve (with_data res (relation (r_data res)))))"

section \<open>The Misskey facade: operations on the first element of an array\<close>




text \<open>
  \<^verbatim>\<open>votePoll\<close>: \<^verbatim>\<open>!status_id\<close> holds for \<^verbatim>\<open>undefined\<close>, \<^verbatim>\<open>null\<close> and the empty string. A
  converted poll is an object, so \<^verbatim>\<open>!res.data\<close> holds exactly when the note has none.
\<close>

definition votePoll ::
  "Client \<Rightarrow> server \<Rightarrow> time_env \<Rightarrow> string \<Rightarrow> int list \<Rightarrow> string option \<Rightarrow> Poll Response promise" where
  "votePoll c S T id' choices status_id' =
    (if \<not> truthy_str status_id' then reject (ArgumentError ''status_id is required'')
     else
       (let params = [(''noteId'', jstr status_id'), (''choice'', elem0 JNum choices)]
        in then_p (post c (reply_empty S) ''/api/notes/polls/vote'' params) (\<lambda>_.
           then_p (then_p (post c (reply_note S) ''/api/notes/show'' [(''noteId'', jstr status_id')])
                     (\<lambda>res. then_p (convert (note' T (r_data res)))
                       (\<lambda>note. resolve (with_data res (status_poll note))))) (\<lambda>res.
             (case r_data res of
                None \<Rightarrow> reject (UnexpectedError ''poll does not exist'')
              | Some d \<Rightarrow> resolve (with_data res d))))))"

section \<open>The Misskey facade: operations with pagination parameters\<close>

text \<open>
  Every \<^verbatim>\<open>if (x) { params = Object.assign(params, {key: x}) }\<close> tests the truthiness of
  the argument. A parameter whose name starts with an underscore in the source is
  never read.
\<close>

definition getAccountFollowers ::
  "Client \<Rightarrow> server \<Rightarrow> string \<Rightarrow> int option \<Rightarrow> string option \<Rightarrow> string option
     \<Rightarrow> Account list Response promise" where
  "getAccountFollowers c S id' limit max_id since_id =
    (let params = [(''userId'', JStr id')];
         params = (if truthy_num limit then Object_assign params [(''limit'', jnum limit)] else params)
     in then_p (post c (reply_followers S) ''/api/users/followers'' params) (\<lambda>res.
          resolve (with_data res (map follower (r_data res)))))"

definition getAccountFollowing ::
  "Client \<Rightarrow> server \<Rightarrow> string \<Rightarrow> int option \<Rightarrow> string option \<Rightarrow> string option
     \<Rightarrow> Account list Response promise" where
  "getAccountFollowing c S id' limit max_id since_id =
    (let params = [(''userId'', JStr id')];
         params = (if truthy_num limit then Object_assign params [(''limit'', jnum limit)] else params)
     in then_p (post c (reply_followers S) ''/api/users/following'' params) (\<lambda>res.
          resolve (with_data res (map follower (r_data res)))))"

definition searchAccount ::
  "Client \<Rightarrow> server \<Rightarrow> string \<Rightarrow> int option \<Rightarrow> string option \<Rightarrow> string option
     \<Rightarrow> Account list Response promise" where
  "searchAccount c S q limit max_id since_id =
    (let params = [(''query'', JStr q)];
         params = (if truthy_num limit then Object_assign params [(''limit'', jnum limit)] else params)
     in then_p (post c (reply_userDetails S) ''/api/users/search'' params) (\<lambda>res.
          resolve (with_data res (map userDetail (r_data res)))))"

definition getFavourites ::
  "Client \<Rightarrow> server \<Rightarrow> time_env \<Rightarrow> int option \<Rightarrow> string option \<Rightarrow> string option
     \<Rightarrow> Status list Response promise" where
  "getFavourites c S T limit max_id min_id =
    (let params = [];
         params = (if truthy_num limit then Object_assign params [(''limit'', jnum limit)] else params);
         params = (if truthy_str max_id then Object_assign params [(''untilId'', jstr max_id)] else params);
         params = (if truthy_str min_id then Object_assign params [(''sinceId'', jstr min_id)] else params)
     in then_p (post c (reply_favorites S) ''/api/i/favorites'' params) (\<lambda>res.
          then_p (convert (mapS (\<lambda>fav. note' T (fav_note fav)) (r_data res)))
            (\<lambda>d. resolve (with_data res d))))"

definition getMutes ::
  "Client \<Rightarrow> server \<Rightarrow> int option \<Rightarrow> string option \<Rightarrow> string option
     \<Rightarrow> Account list Response promise" where
  "getMutes c S limit max_id min_id =
    (let params = [];
         params = (if truthy_num limit then Object_assign params [(''limit'', jnum limit)] else params);
         params = (if truthy_str max_id then Object_assign params [(''untilId'', jstr max_id)] else params);
         params = (if truthy_str min_id then Object_assign params [(''sinceId'', jstr min_id)] else params)
     in then_p (post c (reply_mutes S) ''/api/mute/list'' params) (\<lambda>res.
          resolve (with_data res (map (\<lambda>mute. userDetail (mute_mutee mute)) (r_data res)))))"

definition getBlocks ::
  "Client \<Rightarrow> server \<Rightarrow> int option \<Rightarrow> string option \<Rightarrow> string option
     \<Rightarrow> Account list Response promise" where
  "getBlocks c S limit max_id min_id =
    (let params = [];
         params = (if truthy_num limit then Object_assign params [(''limit'', jnum limit)] else params);
         params = (if truthy_str max_id then Object_assign params [(''untilId'', jstr max_id)] else params);
         params = (if truthy_str min_id then Object_assign params [(''sinceId'', jstr min_id)] else params)
     in then_p (post c (reply_blockings S) ''/api/blocking/list'' params) (\<lambda>res.
          resolve (with_data res (map (\<lambda>blocking. userDetail (blocking_blockee blocking)) (r_data res)))))"

text \<open>\<^verbatim>\<open>getFollowRequests(_limit)\<close> posts without a body: \<^verbatim>\<open>params\<close> defaults to \<^verbatim>\<open>{}\<close>.\<close>

definition getFollowRequests :: "Client \<Rightarrow> server \<Rightarrow> int option \<Rightarrow> Account list Response promise" where
  "getFollowRequests c S limit =
    then_p (post c (reply_followRequests S) ''/api/folllowing/requests/list'' []) (\<lambda>res.
      resolve (with_data res (map (\<lambda>r. user (fr_follower r)) (r_data res))))"

definition getSuggestions ::
  "Client \<Rightarrow> server \<Rightarrow> int option \<Rightarrow> Account list Response promise" where
  "getSuggestions c S limit =
    (let params = [];
         params = (if truthy_num limit then Object_assign params [(''limit'', jnum limit)] else params)
     in then_p (post c (reply_userDetails S) ''/api/users/recommendation'' params) (\<lambda>res.
          resolve (with_data res (map userDetail (r_data res)))))"

definition getPublicTimeline ::
  "Client \<Rightarrow> server \<Rightarrow> time_env \<Rightarrow> bool option \<Rightarrow> int option \<Rightarrow> string option \<Rightarrow> string option
     \<Rightarrow> string option \<Rightarrow> Status list Response promise" where
  "getPublicTimeline c S T only_media limit max_id since_id min_id =
    (let params = [];
         params = (if truthy_bool only_media then Object_assign params [(''withFiles'', jbool only_media)] else params);
         params = (if truthy_num limit then Object_assign params [(''limit'', jnum limit)] else params);
         params = (if truthy_str max_id then Object_assign params [(''untilId'', jstr max_id)] else params);
         params = (if truthy_str since_id then Object_assign params [(''sinceId'', jstr since_id)] else params)
     in then_p (post c (reply_notes S) ''/api/notes/global-timeline'' params) (\<lambda>res.
          then_p (convert (mapS (note' T) (r_data res))) (\<lambda>d. resolve (with_data res d))))"

definition getLocalTimeline ::
  "Client \<Rightarrow> server \<Rightarrow> time_env \<Rightarrow> bool option \<Rightarrow> int option \<Rightarrow> string option \<Rightarrow> string option
     \<Rightarrow> string option \<Rightarrow> Status list Response promise" where
  "getLocalTimeline c S T only_media limit max_id since_id min_id =
    (let params = [];
         params = (if truthy_bool only_media then Object_assign params [(''withFiles'', jbool only_media)] else params);
         params = (if truthy_num limit then Object_assign params [(''limit'', jnum limit)] else params);
         params = (if truthy_str max_id then Object_assign params [(''untilId'', jstr max_id)] else params);
         params = (if truthy_str since_id then Object_assign params [(''sinceId'', jstr since_id)] else params)
     in then_p (post c (reply_notes S) ''/api/notes/local-timeline'' params) (\<lambda>res.
          then_p (convert (mapS (note' T) (r_data res))) (\<lambda>d. resolve (with_data res d))))"

definition getTagTimeline ::
  "Client \<Rightarrow> server \<Rightarrow> time_env \<Rightarrow> string \<Rightarrow> bool option \<Rightarrow> bool option \<Rightarrow> int option
     \<Rightarrow> string option \<Rightarrow> string option \<Rightarrow> string option \<Rightarrow> Status list Response promise" where
  "getTagTimeline c S T hashtag local only_media limit max_id since_id min_id =
    (let params = [(''tag'', JStr hashtag)];
         params = (if truthy_bool only_media then Object_assign params [(''withFiles'', jbool only_media)] else params);
         params = (if truthy_num limit then Object_assign params [(''limit'', jnum limit)] else params);
         params = (if truthy_str max_id then Object_assign params [(''untilId'', jstr max_id)] else params);
         params = (if truthy_str since_id then Object_assign params [(''sinceId'', jstr since_id)] else params)
     in then_p (post c (reply_notes S) ''/api/notes/search-by-tag'' params) (\<lambda>res.
          then_p (convert (mapS (note' T) (r_data res))) (\<lambda>d. resolve (with_data res d))))"

definition getHomeTimeline ::
  "Client \<Rightarrow> server \<Rightarrow> time_env \<Rightarrow> bool option \<Rightarrow> int option \<Rightarrow> string option \<Rightarrow> string option
     \<Rightarrow> string option \<Rightarrow> Status list Response promise" where
  "getHomeTimeline c S T local limit max_id since_id min_id =
    (let params = [(''withFiles'', JBool False)];
         params = (if truthy_num limit then Object_assign params [(''limit'', jnum limit)] else params);
         params = (if truthy_str max_id then Object_assign params [(''untilId'', jstr max_id)] else params);
         params = (if truthy_str since_id then Object_assign params [(''sinceId'', jstr since_id)] else params)
     in then_p (post c (reply_notes S) ''/api/notes/timeline'' params) (\<lambda>res.
          then_p (convert (mapS (note' T) (r_data res))) (\<lambda>d. resolve (with_data res d))))"

definition getListTimeline ::
  "Client \<Rightarrow> server \<Rightarrow> time_env \<Rightarrow> string \<Rightarrow> int option \<Rightarrow> string option \<Rightarrow> string option
     \<Rightarrow> string option \<Rightarrow> Status list Response promise" where
  "getListTimeline c S T list_id' limit max_id since_id min_id =
    (let params = [(''listId'', JStr list_id'), (''withFiles'', JBool False)];
         params = (if truthy_num limit then Object_assign params [(''limit'', jnum limit)] else params);
         params = (if truthy_str max_id then Object_assign params [(''untilId'', jstr max_id)] else params);
         params = (if truthy_str since_id then Object_assign params [(''sinceId'', jstr since_id)] else params)
     in then_p (post c (reply_notes S) ''/api/notes/user-list-timeline'' params) (\<lambda>res.
          then_p (convert (mapS (note' T) (r_data res))) (\<lambda>d. resolve (with_data res d))))"

definition getConversationTimeline ::
  "Client \<Rightarrow> server \<Rightarrow> time_env \<Rightarrow> int option \<Rightarrow> string option \<Rightarrow> string option
     \<Rightarrow> string option \<Rightarrow> Conversation list Response promise" where
  "getConversationTimeline c S T limit max_id since_id min_id =
    (let params = [(''visibility'', JStr ''specified'')];
         params = (if truthy_num limit then Object_assign params [(''limit'', jnum limit)] else params);
         params = (if truthy_str max_id then Object_assign params [(''untilId'', jstr max_id)] else params);
         params = (if truthy_str since_id then Object_assign params [(''sinceId'', jstr since_id)] else params)
     in then_p (post c (reply_notes S) ''/api/notes/mentions'' params) (\<lambda>res.
          then_p (convert (mapS (noteToConversation T) (r_data res)))
            (\<lambda>d. resolve (with_data res d))))"

section \<open>Vocabulary of the properties\<close>

text \<open>
  The request that \<^const>\<open>post\<close> hands to the transport for a body without the key
  \<^verbatim>\<open>i\<close>, and the world after some more requests.
\<close>

definition sent :: "Client \<Rightarrow> string \<Rightarrow> jobject \<Rightarrow> request" where
  "sent c path body = \<lparr>req_url = baseUrl c @ path,
                        req_body = body @ [(''i'', JStr (accessToken c))],
                        req_userAgent = userAgent c\<rparr>"

definition logged :: "world \<Rightarrow> request list \<Rightarrow> world" where
  "logged w rs = w\<lparr>calls := calls w @ rs\<rparr>"

text \<open>The eight operations that create or delete something and then fetch the relation.\<close>

datatype two_step =
    FollowAccount bool | UnfollowAccount | BlockAccount | UnblockAccount
  | MuteAccount bool | UnmuteAccount | AcceptFollowRequest | RejectFollowRequest

fun two_step_run :: "Client \<Rightarrow> server \<Rightarrow> two_step \<Rightarrow> string \<Rightarrow> Relationship Response promise" where
  "two_step_run c S (FollowAccount reblog) id' = followAccount c S id' reblog"
| "two_step_run c S UnfollowAccount id' = unfollowAccount c S id'"
| "two_step_run c S BlockAccount id' = blockAccount c S id'"
| "two_step_run c S UnblockAccount id' = unblockAccount c S id'"
| "two_step_run c S (MuteAccount notifications) id' = muteAccount c S id' notifications"
| "two_step_run c S UnmuteAccount id' = unmuteAccount c S id'"
| "two_step_run c S AcceptFollowRequest id' = acceptFollowRequest c S id'"
| "two_step_run c S RejectFollowRequest id' = rejectFollowRequest c S id'"

fun first_path :: "two_step \<Rightarrow> string" where
  "first_path (FollowAccount _) = ''api/following/create''"
| "first_path UnfollowAccount = ''api/following/delete''"
| "first_path BlockAccount = ''api/blocking/create''"
| "first_path UnblockAccount = ''api/blocking/delete''"
| "first_path (MuteAccount _) = ''api/mute/create''"
| "first_path UnmuteAccount = ''api/mute/delete''"
| "first_path AcceptFollowRequest = ''/api/following/requests/accept''"
| "first_path RejectFollowRequest = ''/api/following/requests/reject''"

text \<open>
  The pagination entries of a body, as the amended pagination property words them: a
  key is present exactly for a parameter given with a non-zero number, a non-empty
  string or \<^verbatim>\<open>true\<close>.
\<close>

fun limit_entry :: "int option \<Rightarrow> jobject" where
  "limit_entry None = []"
| "limit_entry (Some n) = (if n = 0 then [] else [(''limit'', JNum n)])"

fun cursor_entry :: "string \<Rightarrow> string option \<Rightarrow> jobject" where
  "cursor_entry key None = []"
| "cursor_entry key (Some s) = (if s = [] then [] else [(key, JStr s)])"

fun files_entry :: "bool option \<Rightarrow> jobject" where
  "files_entry None = []"
| "files_entry (Some b) = (if b then [(''withFiles'', JBool True)] else [])"

definition supplied :: "int option \<Rightarrow> string option \<Rightarrow> string option \<Rightarrow> jobject" where
  "supplied limit until since =
     limit_entry limit @ cursor_entry ''untilId'' until @ cursor_entry ''sinceId'' since"



subsection \<open>Concrete inputs\<close>

text \<open>
  A clock that is one second before midnight at its first reading and one second after
  at its second, a clock that stays after midnight, and a poll that closes at midnight.
\<close>

definition ex_time :: time_env where
  "ex_time = \<lparr>moment_parse = (\<lambda>s. if s = ''2020-01-01T00:00:00.000Z'' then At 1577836800000
                                    else Invalid),
              reading = (\<lambda>k. 1577836799000 + 2000 * int k)\<rparr>"


definition ex_choices :: "MChoice list" where
  "ex_choices = [\<lparr>choice_text = ''a'', choice_votes = 3, choice_isVoted = False\<rparr>,
                 \<lparr>choice_text = ''b'', choice_votes = 5, choice_isVoted = True\<rparr>,
                 \<lparr>choice_text = ''c'', choice_votes = 2, choice_isVoted = False\<rparr>]"

definition ex_poll :: MPoll where
  "ex_poll = \<lparr>poll_expiresAt = ''2020-01-01T00:00:00.000Z'', poll_multiple = False,
              poll_choices = ex_choices\<rparr>"

definition ex_user :: MUser where
  "ex_user = \<lparr>user_id = ''7rkr3b1c1c'', user_username = ''alice'',
              user_host = Some ''example.com'', user_name = ''Alice'',
              user_avatarUrl = ''https://example.com/a.png'', user_avatarColor = ''#fff'',
              user_emojis = []\<rparr>"

definition ex_note :: MNote where
  "ex_note = MNote ''9abcd'' ex_user None None None ''which?'' ''2019-12-31T00:00:00.000Z'' []
               0 0 None None M_public (Some ex_poll)"


definition ex_client :: Client where
  "ex_client = \<lparr>accessToken = ''token'', baseUrl = ''https://misskey.io'',
                userAgent = ''megalodon''\<rparr>"

definition ex_world :: world where
  "ex_world = \<lparr>calls = [], reads = 0\<rparr>"

definition ok :: "'a \<Rightarrow> 'a Response" where
  "ok d = \<lparr>r_data = d, r_status = 200, r_statusText = ''OK'', r_headers = []\<rparr>"

definition network_error :: "'a reply" where
  "network_error seen req = Inl (AxiosError ''Network Error'')"

text \<open>A backend that fails every request, and one that only accepts the requests
  answered with an empty object.\<close>

definition server_down :: server where
  "server_down = \<lparr>reply_empty = network_error, reply_relation = network_error,
     reply_note = network_error, reply_notes = network_error, reply_favorites = network_error,
     reply_mutes = network_error, reply_blockings = network_error,
     reply_followers = network_error, reply_userDetails = network_error,
     reply_followRequests = network_error\<rparr>"

definition server_half :: server where
  "server_half = server_down\<lparr>reply_empty := (\<lambda>seen req. Inr (ok ()))\<rparr>"

section \<open>Auxiliary facts\<close>


lemma note_keeps_id: "status_id (fst (note' T n k)) = note_id n"
  by (cases n) (simp add: Let_def split_beta)

lemma note_keeps_account: "acct_id (status_account (fst (note' T n k))) = user_id (note_user n)"
  by (cases n) (simp add: Let_def split_beta user_def)

lemma note_keeps_reblog_id:
  "map_option status_id (status_reblog (fst (note' T n k))) = map_option note_id (note_renote n)"
proof (cases n)
  case (MNote nid nuser replyId reply renote content createdAt emojis repliesCount renoteCount
          files cw vis npoll)
  then show ?thesis
    by (cases renote) (simp_all add: Let_def split_beta note_keeps_id)
qed



lemma set_prop_fresh: "k \<notin> fst ` set obj \<Longrightarrow> set_prop obj k v = obj @ [(k, v)]"
  by (induction obj) auto

lemma assign_fresh: "k \<notin> fst ` set obj \<Longrightarrow> Object_assign obj [(k, v)] = obj @ [(k, v)]"
  by (simp add: Object_assign_def set_prop_fresh)

lemma post_sent:
  "''i'' \<notin> fst ` set body \<Longrightarrow>
     post c srv path body w = (srv (calls w) (sent c path body), logged w [sent c path body])"
  by (simp add: post_def Let_def assign_fresh sent_def logged_def)

lemma logged_logged: "logged (logged w xs) ys = logged w (xs @ ys)"
  by (simp add: logged_def)

lemma calls_logged: "calls (logged w xs) = calls w @ xs"
  by (simp add: logged_def)

lemma then_post_calls:
  assumes "''i'' \<notin> fst ` set body" and "\<And>x w'. calls (snd (f x w')) = calls w'"
  shows "calls (snd (then_p (post c srv path body) f w)) = calls w @ [sent c path body]"
  using assms by (simp add: then_p_def post_sent calls_logged split: sum.splits)

lemma resolve_calls: "calls (snd (resolve x w)) = calls w"
  by (simp add: resolve_def)

lemma convert_resolve_calls:
  "calls (snd (then_p (convert g) (\<lambda>d. resolve (h d)) w)) = calls w"
  by (simp add: then_p_def convert_def resolve_def split_beta)

lemma two_step_shape:
  "two_step_run c S op uid =
     then_p (post c (reply_empty S) (first_path op) [(''userId'', JStr uid)]) (\<lambda>_.
     then_p (post c (reply_relation S) ''/api/users/relation'' [(''userId'', JStr uid)]) (\<lambda>res.
       resolve (with_data res (relation (r_data res)))))"
  by (cases op) (simp_all add: followAccount_def unfollowAccount_def blockAccount_def
      unblockAccount_def muteAccount_def unmuteAccount_def acceptFollowRequest_def
      rejectFollowRequest_def)

lemma supplied_keys: "''i'' \<notin> fst ` set (supplied l u s)"
  by (cases l; cases u; cases s) (simp_all add: supplied_def)

lemma files_keys: "''i'' \<notin> fst ` set (files_entry m)"
  by (cases m) auto

lemma params1:
  "''limit'' \<notin> fst ` set base \<Longrightarrow>
   (let params = base;
        params = (if truthy_num l then Object_assign params [(''limit'', jnum l)] else params)
    in F params) = F (base @ supplied l None None)"
  by (cases l) (simp_all add: Let_def assign_fresh supplied_def)

lemma params3:
  "''limit'' \<notin> fst ` set base \<Longrightarrow> ''untilId'' \<notin> fst ` set base
     \<Longrightarrow> ''sinceId'' \<notin> fst ` set base \<Longrightarrow>
   (let params = base;
        params = (if truthy_num l then Object_assign params [(''limit'', jnum l)] else params);
        params = (if truthy_str u then Object_assign params [(''untilId'', jstr u)] else params);
        params = (if truthy_str s then Object_assign params [(''sinceId'', jstr s)] else params)
    in F params) = F (base @ supplied l u s)"
  by (cases l; cases u; cases s) (simp_all add: Let_def assign_fresh supplied_def)

lemma params4:
  "''withFiles'' \<notin> fst ` set base \<Longrightarrow> ''limit'' \<notin> fst ` set base
     \<Longrightarrow> ''untilId'' \<notin> fst ` set base \<Longrightarrow> ''sinceId'' \<notin> fst ` set base \<Longrightarrow>
   (let params = base;
        params = (if truthy_bool m then Object_assign params [(''withFiles'', jbool m)] else params);
        params = (if truthy_num l then Object_assign params [(''limit'', jnum l)] else params);
        params = (if truthy_str u then Object_assign params [(''untilId'', jstr u)] else params);
        params = (if truthy_str s then Object_assign params [(''sinceId'', jstr s)] else params)
    in F params) = F (base @ files_entry m @ supplied l u s)"
  by (cases m; cases l; cases u; cases s) (simp_all add: Let_def assign_fresh supplied_def)

lemma getFavourites_calls:
  "calls (snd (getFavourites c S T limit max_id min_id w))
     = calls w @ [sent c ''/api/i/favorites'' (supplied limit max_id min_id)]"
  unfolding getFavourites_def
  by (subst params3) (simp_all add: then_post_calls convert_resolve_calls supplied_keys)

lemma getMutes_calls:
  "calls (snd (getMutes c S limit max_id min_id w))
     = calls w @ [sent c ''/api/mute/list'' (supplied limit max_id min_id)]"
  unfolding getMutes_def
  by (subst params3) (simp_all add: then_post_calls resolve_calls supplied_keys)

lemma getBlocks_calls:
  "calls (snd (getBlocks c S limit max_id min_id w))
     = calls w @ [sent c ''/api/blocking/list'' (supplied limit max_id min_id)]"
  unfolding getBlocks_def
  by (subst params3) (simp_all add: then_post_calls resolve_calls supplied_keys)

lemma getPublicTimeline_calls:
  "calls (snd (getPublicTimeline c S T only_media limit max_id since_id min_id w))
     = calls w @ [sent c ''/api/notes/global-timeline''
                    (files_entry only_media @ supplied limit max_id since_id)]"
  unfolding getPublicTimeline_def
  by (subst params4)
     (simp_all add: then_post_calls convert_resolve_calls supplied_keys files_keys image_Un)

lemma getLocalTimeline_calls:
  "calls (snd (getLocalTimeline c S T only_media limit max_id since_id min_id w))
     = calls w @ [sent c ''/api/notes/local-timeline''
                    (files_entry only_media @ supplied limit max_id since_id)]"
  unfolding getLocalTimeline_def
  by (subst params4)
     (simp_all add: then_post_calls convert_resolve_calls supplied_keys files_keys image_Un)

lemma getTagTimeline_calls:
  "calls (snd (getTagTimeline c S T hashtag local only_media limit max_id since_id min_id w))
     = calls w @ [sent c ''/api/notes/search-by-tag''
                    ((''tag'', JStr hashtag) # files_entry only_media
                       @ supplied limit max_id since_id)]"
  unfolding getTagTimeline_def
  by (subst params4)
     (simp_all add: then_post_calls convert_resolve_calls supplied_keys files_keys image_Un)

lemma getHomeTimeline_calls:
  "calls (snd (getHomeTimeline c S T local limit max_id since_id min_id w))
     = calls w @ [sent c ''/api/notes/timeline''
                    ((''withFiles'', JBool False) # supplied limit max_id since_id)]"
  unfolding getHomeTimeline_def
  by (subst params3)
     (simp_all add: then_post_calls convert_resolve_calls supplied_keys image_Un)

lemma getListTimeline_calls:
  "calls (snd (getListTimeline c S T lid limit max_id since_id min_id w))
     = calls w @ [sent c ''/api/notes/user-list-timeline''
                    ((''listId'', JStr lid) # (''withFiles'', JBool False)
                       # supplied limit max_id since_id)]"
  unfolding getListTimeline_def
  by (subst params3)
     (simp_all add: then_post_calls convert_resolve_calls supplied_keys image_Un)

lemma getConversationTimeline_calls:
  "calls (snd (getConversationTimeline c S T limit max_id since_id min_id w))
     = calls w @ [sent c ''/api/notes/mentions''
                    ((''visibility'', JStr ''specified'') # supplied limit max_id since_id)]"
  unfolding getConversationTimeline_def
  by (subst params3)
     (simp_all add: then_post_calls convert_resolve_calls supplied_keys image_Un)

lemma getAccountFollowers_calls:
  "calls (snd (getAccountFollowers c S uid limit max_id since_id w))
     = calls w @ [sent c ''/api/users/followers''
                    ((''userId'', JStr uid) # supplied limit None None)]"
  unfolding getAccountFollowers_def
  by (subst params1) (simp_all add: then_post_calls resolve_calls supplied_keys image_Un)

lemma getAccountFollowing_calls:
  "calls (snd (getAccountFollowing c S uid limit max_id since_id w))
     = calls w @ [sent c ''/api/users/following''
                    ((''userId'', JStr uid) # supplied limit None None)]"
  unfolding getAccountFollowing_def
  by (subst params1) (simp_all add: then_post_calls resolve_calls supplied_keys image_Un)

lemma searchAccount_calls:
  "calls (snd (searchAccount c S q limit max_id since_id w))
     = calls w @ [sent c ''/api/users/search'' ((''query'', JStr q) # supplied limit None None)]"
  unfolding searchAccount_def
  by (subst params1) (simp_all add: then_post_calls resolve_calls supplied_keys image_Un)

lemma getSuggestions_calls:
  "calls (snd (getSuggestions c S limit w))
     = calls w @ [sent c ''/api/users/recommendation'' (supplied limit None None)]"
  unfolding getSuggestions_def
  by (subst params1) (simp_all add: then_post_calls resolve_calls supplied_keys)

lemma getFollowRequests_calls:
  "calls (snd (getFollowRequests c S limit w))
     = calls w @ [sent c ''/api/folllowing/requests/list'' []]"
  unfolding getFollowRequests_def
  by (simp add: then_post_calls resolve_calls)

section \<open>The properties\<close>

text \<open>
  C1: every operation that the Misskey facade classifies as unsupported (the forty
  operations whose body only rejects, among them \<^verbatim>\<open>getBookmarks\<close>, \<^verbatim>\<open>getFilters\<close>,
  \<^verbatim>\<open>getPoll\<close>, \<^verbatim>\<open>bookmarkStatus\<close> and \<^verbatim>\<open>getDomainBlocks\<close>) rejects with
  \<^verbatim>\<open>NoImplementedError\<close> for all arguments and leaves the world as it was: the list of
  requests handed to the transport does not grow.
\<close>

theorem unsupported_reject_without_transport:
  "verifyAppCredentials w = (Inl (NoImplementedError ''misskey does not support''), w)
   \<and> refreshToken a1 a2 a3 w = (Inl (NoImplementedError ''misskey does not support''), w)
   \<and> revokeToken a4 a5 a6 w = (Inl (NoImplementedError ''misskey does not support''), w)
   \<and> registerAccount a7 a8 a9 a10 a11 a12 w = (Inl (NoImplementedError ''misskey does not support''), w)
   \<and> getAccountFavourites a13 a14 a15 a16 w = (Inl (NoImplementedError ''misskey does not support''), w)
   \<and> subscribeAccount a17 w = (Inl (NoImplementedError ''misskey does not support''), w)
   \<and> unsubscribeAccount a18 w = (Inl (NoImplementedError ''misskey does not support''), w)
   \<and> getAccountLists a19 w = (Inl (NoImplementedError ''misskey does not support''), w)
   \<and> getIdentityProof a20 w = (Inl (NoImplementedError ''misskey does not support''), w)
   \<and> pinAccount a21 w = (Inl (NoImplementedError ''misskey does not support''), w)
   \<and> unpinAccount a22 w = (Inl (NoImplementedError ''misskey does not support''), w)
   \<and> getBookmarks a23 a24 a25 a26 w = (Inl (NoImplementedError ''misskey does not support''), w)
   \<and> getDomainBlocks a27 a28 a29 w = (Inl (NoImplementedError ''misskey does not support''), w)
   \<and> blockDomain a30 w = (Inl (NoImplementedError ''misskey does not support''), w)
   \<and> unblockDomain a31 w = (Inl (NoImplementedError ''misskey does not support''), w)
   \<and> getFilters w = (Inl (NoImplementedError ''misskey does not support''), w)
   \<and> getFilter a32 w = (Inl (NoImplementedError ''misskey does not support''), w)
   \<and> createFilter a33 a34 a35 a36 a37 w = (Inl (NoImplementedError ''misskey does not support''), w)
   \<and> updateFilter a38 a39 a40 a41 a42 a43 w = (Inl (NoImplementedError ''misskey does not support''), w)
   \<and> deleteFilter a44 w = (Inl (NoImplementedError ''misskey does not support''), w)
   \<and> getEndorsements a45 a46 a47 w = (Inl (NoImplementedError ''misskey does not support''), w)
   \<and> getFeaturedTags w = (Inl (NoImplementedError ''misskey does not support''), w)
   \<and> createFeaturedTag a48 w = (Inl (NoImplementedError ''misskey does not support''), w)
   \<and> deleteFeaturedTag a49 w = (Inl (NoImplementedError ''misskey does not support''), w)
   \<and> getSuggestedTags w = (Inl (NoImplementedError ''misskey does not support''), w)
   \<and> getPreferences w = (Inl (NoImplementedError ''misskey does not support''), w)
   \<and> getStatusFavouritedBy a50 w = (Inl (NoImplementedError ''misskey does not support''), w)
   \<and> bookmarkStatus a51 w = (Inl (NoImplementedError ''misskey does not support''), w)
   \<and> unbookmarkStatus a52 w = (Inl (NoImplementedError ''misskey does not support''), w)
   \<and> muteStatus a53 w = (Inl (NoImplementedError ''misskey does not support''), w)
   \<and> unmuteStatus a54 w = (Inl (NoImplementedError ''misskey does not support''), w)
   \<and> getPoll a55 w = (Inl (NoImplementedError ''misskey does not support''), w)
   \<and> getScheduledStatuses a56 a57 a58 a59 w = (Inl (NoImplementedError ''misskey does not support''), w)
   \<and> getScheduledStatus a60 w = (Inl (NoImplementedError ''misskey does not support''), w)
   \<and> scheduleStatus a61 a62 w = (Inl (NoImplementedError ''misskey does not support''), w)
   \<and> cancelScheduledStatus a63 w = (Inl (NoImplementedError ''misskey does not support''), w)
   \<and> deleteConversation a64 w = (Inl (NoImplementedError ''misskey does not support''), w)
   \<and> readConversation a65 w = (Inl (NoImplementedError ''misskey does not support''), w)
   \<and> getMarker a66 w = (Inl (NoImplementedError ''misskey does not support''), w)
   \<and> saveMarker a67 a68 w = (Inl (NoImplementedError ''misskey does not support''), w)"
  by (simp add: reject_def
      verifyAppCredentials_def refreshToken_def revokeToken_def registerAccount_def
       getAccountFavourites_def subscribeAccount_def unsubscribeAccount_def
       getAccountLists_def getIdentityProof_def pinAccount_def unpinAccount_def
       getBookmarks_def getDomainBlocks_def blockDomain_def unblockDomain_def getFilters_def
       getFilter_def createFilter_def updateFilter_def deleteFilter_def getEndorsements_def
       getFeaturedTags_def createFeaturedTag_def deleteFeaturedTag_def getSuggestedTags_def
       getPreferences_def getStatusFavouritedBy_def bookmarkStatus_def unbookmarkStatus_def
       muteStatus_def unmuteStatus_def getPoll_def getScheduledStatuses_def
       getScheduledStatus_def scheduleStatus_def cancelScheduledStatus_def
       deleteConversation_def readConversation_def getMarker_def saveMarker_def)

text \<open>
  C2: decoding an encoded unified visibility gives it back, encoding a decoded Misskey
  visibility gives it back, and both translations are bijections between the two
  four-valued enumerations.
\<close>

theorem visibility_bijection:
  "visibility (encodeVisibility v) = v
   \<and> encodeVisibility (visibility m) = m
   \<and> bij visibility \<and> bij encodeVisibility"
proof -
  have dec: "visibility (encodeVisibility x) = x" for x
    by (cases x) simp_all
  have enc: "encodeVisibility (visibility y) = y" for y
    by (cases y) simp_all
  have "bij visibility"
    by (rule bij_betw_byWitness [where f' = encodeVisibility]) (auto simp: dec enc)
  moreover have "bij encodeVisibility"
    by (rule bij_betw_byWitness [where f' = visibility]) (auto simp: dec enc)
  ultimately show ?thesis
    using dec enc by simp
qed



text \<open>
  C4: when the expiry date of a native poll parses to an instant, the converted poll is
  expired if that instant is strictly before the reading of the clock that the
  conversion makes, and not expired if it is after it.
\<close>

theorem poll_expired_by_clock:
  "moment_parse T (poll_expiresAt p) = At e \<Longrightarrow>
     (e < reading T k \<longrightarrow> Poll_expired (fst (poll T p k)))
     \<and> (reading T k < e \<longrightarrow> \<not> Poll_expired (fst (poll T p k)))"
  by (simp add: poll_def Let_def)

text \<open>The poll that closes at midnight, converted one second after and one second before.\<close>

theorem poll_expired_by_clock_witness:
  "moment_parse ex_time (poll_expiresAt ex_poll) = At 1577836800000
   \<and> 1577836800000 < reading ex_time 1 \<and> Poll_expired (fst (poll ex_time ex_poll 1))
   \<and> reading ex_time 0 < 1577836800000 \<and> \<not> Poll_expired (fst (poll ex_time ex_poll 0))"
  using poll_expired_by_clock [of ex_time ex_poll 1577836800000 1]
        poll_expired_by_clock [of ex_time ex_poll 1577836800000 0]
  by (simp add: ex_time_def ex_poll_def)

text \<open>
  C5, amended: a converted account (from a user or a detailed user) and a converted
  status carry the native id unchanged, and so do the status's account and its reblog;
  a converted poll always has the empty string as its id, since the native poll has no
  identity field.
\<close>

theorem converter_id_preserved:
  "acct_id (user u) = user_id u
   \<and> acct_id (userDetail d) = ud_id d
   \<and> status_id (fst (note' T n k)) = note_id n
   \<and> acct_id (status_account (fst (note' T n k))) = user_id (note_user n)
   \<and> map_option status_id (status_reblog (fst (note' T n k))) = map_option note_id (note_renote n)
   \<and> Poll_id (fst (poll T p k)) = []"
  by (simp add: note_keeps_id note_keeps_account note_keeps_reblog_id user_def userDetail_def
      poll_def Let_def)

text \<open>
  The id of a converted poll is the empty string: it is neither the only string that
  the native poll carries nor the id of the note that owns the poll, and two different
  native polls get the same id.
\<close>

theorem poll_id_counterexample:
  "Poll_id (fst (poll ex_time ex_poll 0)) = []
   \<and> Poll_id (fst (poll ex_time ex_poll 0)) \<noteq> poll_expiresAt ex_poll
   \<and> map_option Poll_id (status_poll (fst (note' ex_time ex_note 0))) = Some []
   \<and> note_id ex_note = ''9abcd''
   \<and> ex_poll\<lparr>poll_multiple := True\<rparr> \<noteq> ex_poll
   \<and> Poll_id (fst (poll ex_time (ex_poll\<lparr>poll_multiple := True\<rparr>) 0))
       = Poll_id (fst (poll ex_time ex_poll 0))"
  by (simp add: poll_def ex_poll_def ex_note_def Let_def)




text \<open>
  C7: for each of the eight two-step operations, when the backend fails the first
  request, the operation rejects with that very failure and only the first request has
  been handed to the transport; when the backend answers the first request and fails
  the second, the operation rejects (with the second failure) although both requests
  have been made.
\<close>

theorem two_step_failure:
  "(reply_empty S (calls w) (sent c (first_path op) [(''userId'', JStr uid)]) = Inl e \<longrightarrow>
      two_step_run c S op uid w
        = (Inl e, logged w [sent c (first_path op) [(''userId'', JStr uid)]]))
   \<and> (reply_empty S (calls w) (sent c (first_path op) [(''userId'', JStr uid)]) = Inr x
      \<and> reply_relation S (calls w @ [sent c (first_path op) [(''userId'', JStr uid)]])
           (sent c ''/api/users/relation'' [(''userId'', JStr uid)]) = Inl e' \<longrightarrow>
      two_step_run c S op uid w
        = (Inl e', logged w [sent c (first_path op) [(''userId'', JStr uid)],
                              sent c ''/api/users/relation'' [(''userId'', JStr uid)]]))"
  by (simp add: two_step_shape then_p_def post_sent calls_logged logged_logged)

text \<open>
  Following an account on a backend that is down, and blocking one on a backend that
  accepts the block and then fails to report the relation.
\<close>

theorem two_step_failure_witness:
  "followAccount ex_client server_down ''7rkr3b1c1c'' True ex_world
     = (Inl (AxiosError ''Network Error''),
        \<lparr>calls = [\<lparr>req_url = ''https://misskey.ioapi/following/create'',
                   req_body = [(''userId'', JStr ''7rkr3b1c1c''), (''i'', JStr ''token'')],
                   req_userAgent = ''megalodon''\<rparr>], reads = 0\<rparr>)
   \<and> blockAccount ex_client server_half ''7rkr3b1c1c'' ex_world
     = (Inl (AxiosError ''Network Error''),
        \<lparr>calls = [\<lparr>req_url = ''https://misskey.ioapi/blocking/create'',
                   req_body = [(''userId'', JStr ''7rkr3b1c1c''), (''i'', JStr ''token'')],
                   req_userAgent = ''megalodon''\<rparr>,
                 \<lparr>req_url = ''https://misskey.io/api/users/relation'',
                   req_body = [(''userId'', JStr ''7rkr3b1c1c''), (''i'', JStr ''token'')],
                   req_userAgent = ''megalodon''\<rparr>], reads = 0\<rparr>)"
  using two_step_failure [of server_down ex_world ex_client "FollowAccount True" "''7rkr3b1c1c''"
          "AxiosError ''Network Error''"]
        two_step_failure [of server_half ex_world ex_client BlockAccount "''7rkr3b1c1c''"
          "AxiosError ''Network Error''" "ok ()" "AxiosError ''Network Error''"]
  by (simp add: server_down_def server_half_def network_error_def ex_client_def ex_world_def
      sent_def logged_def)

text \<open>
  C8: \<^verbatim>\<open>votePoll\<close> without a status id (absent or empty) rejects with \<^verbatim>\<open>ArgumentError\<close>,
  which is not \<^verbatim>\<open>NoImplementedError\<close>, and hands no request to the transport; with a
  non-empty status id the next request handed to the transport is the vote.
\<close>

theorem votePoll_requires_status_id:
  "(sid = None \<or> sid = Some [] \<longrightarrow>
      votePoll c S T pid choices sid w = (Inl (ArgumentError ''status_id is required''), w)
      \<and> fst (votePoll c S T pid choices sid w) \<noteq> Inl (NoImplementedError msg))
   \<and> (sid = Some s \<and> s \<noteq> [] \<longrightarrow>
      take (Suc (length (calls w))) (calls (snd (votePoll c S T pid choices sid w)))
        = calls w @ [sent c ''/api/notes/polls/vote''
                       [(''noteId'', JStr s), (''choice'', elem0 JNum choices)]])"
  by (auto simp add: votePoll_def reject_def then_p_def post_sent calls_logged logged_logged
      resolve_def convert_def Let_def split: sum.splits prod.splits option.splits)

text \<open>A vote without a status id, one with an empty status id and one for a note.\<close>

theorem votePoll_requires_status_id_witness:
  "votePoll ex_client server_down ex_time ''p'' [1] None ex_world
     = (Inl (ArgumentError ''status_id is required''), ex_world)
   \<and> votePoll ex_client server_down ex_time ''p'' [1] (Some []) ex_world
     = (Inl (ArgumentError ''status_id is required''), ex_world)
   \<and> take 1 (calls (snd (votePoll ex_client server_down ex_time ''p'' [1] (Some ''9abcd'') ex_world)))
     = [\<lparr>req_url = ''https://misskey.io/api/notes/polls/vote'',
         req_body = [(''noteId'', JStr ''9abcd''), (''choice'', JNum 1), (''i'', JStr ''token'')],
         req_userAgent = ''megalodon''\<rparr>]"
  using votePoll_requires_status_id [of None ex_client server_down ex_time "''p''" "[1]" ex_world]
        votePoll_requires_status_id [of "Some []" ex_client server_down ex_time "''p''" "[1]"
          ex_world]
        votePoll_requires_status_id [of "Some ''9abcd''" ex_client server_down ex_time "''p''"
          "[1]" ex_world _ "''9abcd''"]
  by (simp add: ex_client_def ex_world_def sent_def)


text \<open>
  C9, amended: the one request of each operation with pagination parameters has as its
  body the fixed entries of the operation, then \<^verbatim>\<open>limit\<close> exactly when a non-zero limit was
  given, \<^verbatim>\<open>untilId\<close> exactly when a non-empty \<^verbatim>\<open>max_id\<close> was given and \<^verbatim>\<open>sinceId\<close> exactly
  when a non-empty \<^verbatim>\<open>since_id\<close> (for favourites, mutes and blocks: \<^verbatim>\<open>min_id\<close>) was given,
  each with the given value, then the access token. Nothing is encoded for a parameter
  that was omitted. The \<^verbatim>\<open>min_id\<close> of the timelines, the \<^verbatim>\<open>max_id\<close> and \<^verbatim>\<open>since_id\<close> of
  the follower, following and search operations and the limit of \<^verbatim>\<open>getFollowRequests\<close>
  are never encoded.
\<close>

theorem pagination_encoding:
  "calls (snd (getFavourites c S T limit max_id min_id w))
     = calls w @ [sent c ''/api/i/favorites'' (supplied limit max_id min_id)]
   \<and> calls (snd (getMutes c S limit max_id min_id w))
     = calls w @ [sent c ''/api/mute/list'' (supplied limit max_id min_id)]
   \<and> calls (snd (getBlocks c S limit max_id min_id w))
     = calls w @ [sent c ''/api/blocking/list'' (supplied limit max_id min_id)]
   \<and> calls (snd (getPublicTimeline c S T only_media limit max_id since_id min_id w))
     = calls w @ [sent c ''/api/notes/global-timeline''
                    (files_entry only_media @ supplied limit max_id since_id)]
   \<and> calls (snd (getLocalTimeline c S T only_media limit max_id since_id min_id w))
     = calls w @ [sent c ''/api/notes/local-timeline''
                    (files_entry only_media @ supplied limit max_id since_id)]
   \<and> calls (snd (getTagTimeline c S T hashtag local only_media limit max_id since_id min_id w))
     = calls w @ [sent c ''/api/notes/search-by-tag''
                    ((''tag'', JStr hashtag) # files_entry only_media
                       @ supplied limit max_id since_id)]
   \<and> calls (snd (getHomeTimeline c S T local limit max_id since_id min_id w))
     = calls w @ [sent c ''/api/notes/timeline''
                    ((''withFiles'', JBool False) # supplied limit max_id since_id)]
   \<and> calls (snd (getListTimeline c S T lid limit max_id since_id min_id w))
     = calls w @ [sent c ''/api/notes/user-list-timeline''
                    ((''listId'', JStr lid) # (''withFiles'', JBool False)
                       # supplied limit max_id since_id)]
   \<and> calls (snd (getConversationTimeline c S T limit max_id since_id min_id w))
     = calls w @ [sent c ''/api/notes/mentions''
                    ((''visibility'', JStr ''specified'') # supplied limit max_id since_id)]
   \<and> calls (snd (getAccountFollowers c S uid limit max_id since_id w))
     = calls w @ [sent c ''/api/users/followers''
                    ((''userId'', JStr uid) # supplied limit None None)]
   \<and> calls (snd (getAccountFollowing c S uid limit max_id since_id w))
     = calls w @ [sent c ''/api/users/following''
                    ((''userId'', JStr uid) # supplied limit None None)]
   \<and> calls (snd (searchAccount c S q limit max_id since_id w))
     = calls w @ [sent c ''/api/users/search'' ((''query'', JStr q) # supplied limit None None)]
   \<and> calls (snd (getSuggestions c S limit w))
     = calls w @ [sent c ''/api/users/recommendation'' (supplied limit None None)]
   \<and> calls (snd (getFollowRequests c S limit w))
     = calls w @ [sent c ''/api/folllowing/requests/list'' []]
   \<and> supplied None None None = []"
  by (simp only: getFavourites_calls getMutes_calls getBlocks_calls getPublicTimeline_calls
      getLocalTimeline_calls getTagTimeline_calls getHomeTimeline_calls getListTimeline_calls
      getConversationTimeline_calls getAccountFollowers_calls getAccountFollowing_calls
      searchAccount_calls getSuggestions_calls getFollowRequests_calls)
     (simp add: supplied_def)

text \<open>
  The home timeline asked for with a \<^verbatim>\<open>min_id\<close> only, and the favourites asked for with
  the limit 0: both parameters are supplied, yet neither body has a pagination key.
\<close>

theorem pagination_counterexample:
  "map req_body (calls (snd (getHomeTimeline ex_client server_down ex_time
       None None None None (Some ''9abcd'') ex_world)))
     = [[(''withFiles'', JBool False), (''i'', JStr ''token'')]]
   \<and> map req_body (calls (snd (getFavourites ex_client server_down ex_time
       (Some 0) None None ex_world)))
     = [[(''i'', JStr ''token'')]]"
  by (simp add: getHomeTimeline_calls getFavourites_calls supplied_def sent_def ex_client_def
      ex_world_def)

end
